theory Spec2Isabelle
  imports Main "HOL-Library.Sublist" "HOL-Library.Word"
begin

section \<open>Python values\<close>

text \<open>
  A Python \<open>str\<close> is a sequence of Unicode code points, a \<open>bytes\<close> object a sequence
  of octets. The literals of \<^verbatim>\<open>app.py\<close> are ASCII and are written as Isabelle strings,
  converted by \<open>S\<close>.
\<close>

type_synonym codepoint = nat
type_synonym pystr = "codepoint list"
type_synonym bytes = "8 word list"

definition S :: "string \<Rightarrow> pystr" where
  "S s = map of_char s"

text \<open>
  The values that \<^verbatim>\<open>json.loads\<close>, \<^verbatim>\<open>request.get_json()\<close> and \<^verbatim>\<open>response.json()\<close>
  produce and that \<^verbatim>\<open>jsonify\<close> accepts: \<open>None\<close>, \<open>bool\<close>, \<open>int\<close>, \<open>float\<close> (the
  IEEE-754 binary64 bit pattern), \<open>str\<close>, \<open>list\<close> and \<open>dict\<close> with \<open>str\<close> keys. A dict is
  an association list in insertion order; its keys are distinct, as in a Python dict.
\<close>

datatype json =
    JNull
  | JBool bool
  | JInt int
  | JFloat "64 word"
  | JStr pystr
  | JArr "json list"
  | JObj "(pystr \<times> json) list"

text \<open>
  Exceptions. \<open>Exception m\<close> is \<^verbatim>\<open>raise Exception(m)\<close> of \<^verbatim>\<open>app.py\<close> itself. \<open>Builtin b\<close> is
  raised by the interpreter: on a failed subscript, attribute access or membership test,
  on the conversion of an integer literal with too many digits (\<open>ValueError\<close>) and on
  too deep a recursion (\<open>RecursionError\<close>). \<open>JSONDecodeError m\<close> is the exception of that
  class of the module \<^verbatim>\<open>json\<close>, with message \<open>m\<close>. \<open>Foreign m c\<close> is raised inside another
  library or by an external service: \<open>m\<close> is \<^verbatim>\<open>str(e)\<close> and \<open>c\<close> is the attribute
  \<^verbatim>\<open>e.code\<close> when the exception has one.
\<close>

datatype builtin_error =
  KeyError json | IndexError | TypeError | AttributeError | ValueError | RecursionError

datatype exc =
    Exception pystr
  | Builtin builtin_error
  | JSONDecodeError pystr
  | Foreign pystr "json option"

fun exc_code :: "exc \<Rightarrow> json option" where
  "exc_code (Foreign m c) = c"
| "exc_code (Exception m) = None"
| "exc_code (Builtin b) = None"
| "exc_code (JSONDecodeError m) = None"

text \<open>\<^verbatim>\<open>except json.JSONDecodeError\<close> catches the exceptions of that class and no other.\<close>

fun is_json_decode_error :: "exc \<Rightarrow> bool" where
  "is_json_decode_error (JSONDecodeError m) = True"
| "is_json_decode_error (Exception m) = False"
| "is_json_decode_error (Builtin b) = False"
| "is_json_decode_error (Foreign m c) = False"

definition then_exc :: "exc + 'a \<Rightarrow> ('a \<Rightarrow> exc + 'b) \<Rightarrow> exc + 'b" where
  "then_exc r f = (case r of Inl e \<Rightarrow> Inl e | Inr x \<Rightarrow> f x)"

subsection \<open>Truth value, membership, subscripts\<close>

text \<open>\<^verbatim>\<open>not x\<close> is \<open>\<not> py_truthy x\<close>. A float is false when it is \<open>+0.0\<close> or \<open>-0.0\<close>.\<close>

fun py_truthy :: "json \<Rightarrow> bool" where
  "py_truthy JNull = False"
| "py_truthy (JBool b) = b"
| "py_truthy (JInt i) = (i \<noteq> 0)"
| "py_truthy (JFloat w) = (w \<noteq> 0 \<and> w \<noteq> 0x8000000000000000)"
| "py_truthy (JStr s) = (s \<noteq> [])"
| "py_truthy (JArr xs) = (xs \<noteq> [])"
| "py_truthy (JObj kvs) = (kvs \<noteq> [])"

text \<open>\<^verbatim>\<open>k in data\<close> for a \<open>str\<close> \<open>k\<close>: key of a dict, element of a list, substring of a
  \<open>str\<close>; \<open>TypeError\<close> on a value that is no container.\<close>

fun py_contains :: "json \<Rightarrow> pystr \<Rightarrow> exc + bool" where
  "py_contains (JObj kvs) k = Inr (k \<in> set (map fst kvs))"
| "py_contains (JArr xs) k = Inr (JStr k \<in> set xs)"
| "py_contains (JStr s) k = Inr (sublist k s)"
| "py_contains JNull k = Inl (Builtin TypeError)"
| "py_contains (JBool b) k = Inl (Builtin TypeError)"
| "py_contains (JInt i) k = Inl (Builtin TypeError)"
| "py_contains (JFloat w) k = Inl (Builtin TypeError)"

text \<open>\<^verbatim>\<open>data[k]\<close> for a \<open>str\<close> \<open>k\<close>.\<close>

fun getitem_str :: "json \<Rightarrow> pystr \<Rightarrow> exc + json" where
  "getitem_str (JObj kvs) k =
     (case map_of kvs k of Some v \<Rightarrow> Inr v | None \<Rightarrow> Inl (Builtin (KeyError (JStr k))))"
| "getitem_str (JArr xs) k = Inl (Builtin TypeError)"
| "getitem_str (JStr s) k = Inl (Builtin TypeError)"
| "getitem_str JNull k = Inl (Builtin TypeError)"
| "getitem_str (JBool b) k = Inl (Builtin TypeError)"
| "getitem_str (JInt i) k = Inl (Builtin TypeError)"
| "getitem_str (JFloat w) k = Inl (Builtin TypeError)"

text \<open>\<^verbatim>\<open>data[0]\<close>: the first element of a list, the first character of a \<open>str\<close>;
  a dict has no key \<open>0\<close>.\<close>

fun getitem_0 :: "json \<Rightarrow> exc + json" where
  "getitem_0 (JArr xs) = (case xs of [] \<Rightarrow> Inl (Builtin IndexError) | x # _ \<Rightarrow> Inr x)"
| "getitem_0 (JStr s) = (case s of [] \<Rightarrow> Inl (Builtin IndexError) | c # _ \<Rightarrow> Inr (JStr [c]))"
| "getitem_0 (JObj kvs) = Inl (Builtin (KeyError (JInt 0)))"
| "getitem_0 JNull = Inl (Builtin TypeError)"
| "getitem_0 (JBool b) = Inl (Builtin TypeError)"
| "getitem_0 (JInt i) = Inl (Builtin TypeError)"
| "getitem_0 (JFloat w) = Inl (Builtin TypeError)"

text \<open>\<^verbatim>\<open>data.get(k)\<close>: only a dict has the method.\<close>

fun py_get :: "json \<Rightarrow> pystr \<Rightarrow> exc + json" where
  "py_get (JObj kvs) k = Inr (case map_of kvs k of Some v \<Rightarrow> v | None \<Rightarrow> JNull)"
| "py_get (JArr xs) k = Inl (Builtin AttributeError)"
| "py_get (JStr s) k = Inl (Builtin AttributeError)"
| "py_get JNull k = Inl (Builtin AttributeError)"
| "py_get (JBool b) k = Inl (Builtin AttributeError)"
| "py_get (JInt i) k = Inl (Builtin AttributeError)"
| "py_get (JFloat w) k = Inl (Builtin AttributeError)"

subsection \<open>String operations\<close>

text \<open>\<^verbatim>\<open>s.replace(old, new)\<close>: the occurrences of \<open>old\<close> are found from left to right
  without overlap; an empty \<open>old\<close> matches before every character and at the end.\<close>

function str_replace :: "'a list \<Rightarrow> 'a list \<Rightarrow> 'a list \<Rightarrow> 'a list" where
  "str_replace old new s =
     (if old = [] then (case s of [] \<Rightarrow> new | c # cs \<Rightarrow> new @ c # str_replace old new cs)
      else if s = [] then []
      else if prefix old s then new @ str_replace old new (drop (length old) s)
      else hd s # str_replace old new (tl s))"
  by pat_completeness auto
termination
  by (relation "measure (\<lambda>(old, new, s). length s)") auto

text \<open>\<^verbatim>\<open>str.isspace\<close> on one code point (the white space of the Unicode database),
  and \<^verbatim>\<open>s.strip()\<close>.\<close>

definition py_isspace :: "codepoint \<Rightarrow> bool" where
  "py_isspace c =
     (c \<in> set ([0x09, 0x0A, 0x0B, 0x0C, 0x0D, 0x1C, 0x1D, 0x1E, 0x1F, 0x20, 0x85, 0xA0,
                0x1680, 0x2000, 0x2001, 0x2002, 0x2003, 0x2004, 0x2005, 0x2006, 0x2007,
                0x2008, 0x2009, 0x200A, 0x2028, 0x2029, 0x202F, 0x205F, 0x3000]))"

definition str_strip :: "pystr \<Rightarrow> pystr" where
  "str_strip s = rev (dropWhile py_isspace (rev (dropWhile py_isspace s)))"

text \<open>\<^verbatim>\<open>sep.join(xs)\<close>.\<close>

fun str_join :: "pystr \<Rightarrow> pystr list \<Rightarrow> pystr" where
  "str_join sep [] = []"
| "str_join sep [x] = x"
| "str_join sep (x # y # ys) = x @ sep @ str_join sep (y # ys)"

text \<open>\<^verbatim>\<open>str(n)\<close> of an \<open>int\<close>: decimal digits, with a sign when negative.\<close>

fun str_nat :: "nat \<Rightarrow> pystr" where
  "str_nat n = (if n < 10 then [48 + n] else str_nat (n div 10) @ [48 + n mod 10])"

definition str_int :: "int \<Rightarrow> pystr" where
  "str_int i = (if i < 0 then 45 # str_nat (nat (- i)) else str_nat (nat i))"

declare str_replace.simps [simp del]
declare str_nat.simps [simp del]

section \<open>The environment of the process\<close>

text \<open>
  The external collaborators. Each call of a remote service is appended to the list of
  calls made so far, and the service's reply may depend on that list, so that the same
  request can be answered differently at different times. A call is recorded when it is
  attempted, whether it returns or raises. \<open>stdout\<close> holds the lines printed.
\<close>

datatype call =
    VisionDetect bytes
  | HttpPost pystr "(pystr \<times> pystr) list" json
  | CreateUser json json

record world =
  calls :: "call list"
  stdout :: "pystr list"

record vision_response =
  error_message :: pystr
  full_text :: pystr

text \<open>A \<^verbatim>\<open>requests.Response\<close>: \<open>body_text\<close> is \<^verbatim>\<open>response.text\<close>, \<open>body_json\<close> is what \<^verbatim>\<open>response.json()\<close> returns or raises.\<close>

record http_response =
  status_code :: int
  body_text :: pystr
  body_json :: "exc + json"

record user_record =
  uid :: pystr

text \<open>
  \<open>API_KEY\<close> is the module-level constant. \<open>py_str\<close> is \<^verbatim>\<open>str(x)\<close> on a value that is not
  a \<open>str\<close>, \<open>builtin_str\<close> is \<^verbatim>\<open>str(e)\<close> on an exception of the interpreter.
  \<open>json_loads\<close> is \<^verbatim>\<open>json.loads\<close> on a \<open>str\<close>: it returns the parsed value or raises, a
  \<^verbatim>\<open>JSONDecodeError\<close> on a string that is no JSON document, and also a \<open>ValueError\<close> on an
  integer literal of more digits than the interpreter converts or a \<open>RecursionError\<close> on
  nesting deeper than the interpreter's stack allows. \<open>utf8_decode\<close>
  is \<^verbatim>\<open>bytes.decode('utf-8')\<close> (\<open>None\<close>: \<^verbatim>\<open>UnicodeDecodeError\<close>), \<open>docx_paragraphs\<close> is
  \<^verbatim>\<open>docx.Document(io.BytesIO(b)).paragraphs\<close>, each paragraph by its \<^verbatim>\<open>text\<close>.
  \<open>vision_detect\<close> stands for creating the \<^verbatim>\<open>ImageAnnotatorClient\<close> and its call
  \<^verbatim>\<open>document_text_detection\<close>, \<open>requests_post\<close> for \<^verbatim>\<open>requests.post\<close>, and
  \<open>create_user\<close> for \<^verbatim>\<open>auth.create_user\<close>.
\<close>

record env =
  API_KEY :: pystr
  py_str :: "json \<Rightarrow> pystr"
  builtin_str :: "builtin_error \<Rightarrow> pystr"
  json_loads :: "pystr \<Rightarrow> exc + json"
  utf8_decode :: "bytes \<Rightarrow> pystr option"
  docx_paragraphs :: "bytes \<Rightarrow> exc + pystr list"
  vision_detect :: "call list \<Rightarrow> bytes \<Rightarrow> exc + vision_response"
  requests_post :: "call list \<Rightarrow> pystr \<Rightarrow> (pystr \<times> pystr) list \<Rightarrow> json \<Rightarrow> exc + http_response"
  create_user :: "call list \<Rightarrow> json \<Rightarrow> json \<Rightarrow> exc + user_record"

text \<open>\<^verbatim>\<open>str(e)\<close>, and \<^verbatim>\<open>{x}\<close> inside an f-string.\<close>

fun exc_str :: "env \<Rightarrow> exc \<Rightarrow> pystr" where
  "exc_str env (Exception m) = m"
| "exc_str env (Foreign m c) = m"
| "exc_str env (Builtin b) = builtin_str env b"
| "exc_str env (JSONDecodeError m) = m"

fun py_format :: "env \<Rightarrow> json \<Rightarrow> pystr" where
  "py_format env (JStr s) = s"
| "py_format env JNull = py_str env JNull"
| "py_format env (JBool b) = py_str env (JBool b)"
| "py_format env (JInt i) = py_str env (JInt i)"
| "py_format env (JFloat w) = py_str env (JFloat w)"
| "py_format env (JArr xs) = py_str env (JArr xs)"
| "py_format env (JObj kvs) = py_str env (JObj kvs)"

definition record_call :: "call \<Rightarrow> world \<Rightarrow> world" where
  "record_call c w = w\<lparr>calls := calls w @ [c]\<rparr>"

definition print :: "pystr \<Rightarrow> world \<Rightarrow> world" where
  "print line w = w\<lparr>stdout := stdout w @ [line]\<rparr>"

section \<open>Text extraction\<close>

definition get_text_from_file :: "env \<Rightarrow> bytes \<Rightarrow> pystr \<Rightarrow> world \<Rightarrow> (exc + pystr) \<times> world" where
  "get_text_from_file env file_content mime_type w =
     (if file_content = [] then (Inl (Exception (S ''The uploaded file is empty.'')), w)
      else if sublist (S ''wordprocessingml.document'') mime_type then
        (case docx_paragraphs env file_content of
           Inl e \<Rightarrow> (Inl (Exception (S ''Error reading .docx file: '' @ exc_str env e)), w)
         | Inr paragraphs \<Rightarrow> (Inr (str_join (S ''\<newline>'') paragraphs), w))
      else if prefix (S ''application/pdf'') mime_type \<or> prefix (S ''image/'') mime_type then
        (case vision_detect env (calls w) file_content of
           Inl e \<Rightarrow> (Inl e, record_call (VisionDetect file_content) w)
         | Inr response \<Rightarrow>
             if error_message response \<noteq> []
             then (Inl (Exception (S ''Vision AI Error: '' @ error_message response)),
                   record_call (VisionDetect file_content) w)
             else (Inr (full_text response), record_call (VisionDetect file_content) w))
      else if prefix (S ''text/'') mime_type then
        (case utf8_decode env file_content of
           Some t \<Rightarrow> (Inr t, w)
         | None \<Rightarrow> (Inl (Exception (S ''Could not read text file.'')), w))
      else (Inl (Exception (S ''Unsupported file type: '' @ mime_type @ S ''.'')), w))"

section \<open>The generation client\<close>

definition model_name :: pystr where
  "model_name = S ''gemini-1.5-flash-latest''"

definition gemini_url :: "env \<Rightarrow> pystr" where
  "gemini_url env =
     S ''https://generativelanguage.googleapis.com/v1beta/models/'' @ model_name
       @ S '':generateContent?key='' @ API_KEY env"

definition gemini_headers :: "(pystr \<times> pystr) list" where
  "gemini_headers = [(S ''Content-Type'', S ''application/json'')]"

definition gemini_data :: "pystr \<Rightarrow> json" where
  "gemini_data prompt =
     JObj [(S ''contents'', JArr [JObj [(S ''parts'', JArr [JObj [(S ''text'', JStr prompt)]])]])]"

text \<open>Lines 92 to 97: what \<^verbatim>\<open>call_gemini_api\<close> makes of the reply.\<close>

definition first_candidate_text :: "json \<Rightarrow> exc + json" where
  "first_candidate_text response_json =
     then_exc (getitem_str response_json (S ''candidates'')) (\<lambda>candidates.
     then_exc (getitem_0 candidates) (\<lambda>candidate.
     then_exc (getitem_str candidate (S ''content'')) (\<lambda>content.
     then_exc (getitem_str content (S ''parts'')) (\<lambda>parts.
     then_exc (getitem_0 parts) (\<lambda>part.
     getitem_str part (S ''text''))))))"

definition read_response :: "http_response \<Rightarrow> exc + json" where
  "read_response response =
     (if status_code response \<noteq> 200
      then Inl (Exception (S ''Google API Error: '' @ str_int (status_code response)
                             @ S '' '' @ body_text response))
      else then_exc (body_json response) (\<lambda>response_json.
           then_exc (py_get response_json (S ''candidates'')) (\<lambda>candidates.
           if \<not> py_truthy candidates
           then Inl (Exception (S ''API returned no candidates. The prompt may have been blocked.''))
           else first_candidate_text response_json)))"

definition call_gemini_api :: "env \<Rightarrow> pystr \<Rightarrow> world \<Rightarrow> (exc + json) \<times> world" where
  "call_gemini_api env prompt w =
     (let url = gemini_url env; headers = gemini_headers; data = gemini_data prompt
      in (then_exc (requests_post env (calls w) url headers data) read_response,
          record_call (HttpPost url headers data) w))"

section \<open>The four generation tasks\<close>

text \<open>The f-strings of lines 100, 110, 114 and 118, as functions of the interpolated text.\<close>

definition analyze_prompt :: "pystr \<Rightarrow> pystr" where
  "analyze_prompt document_text =
     S ''Analyze the following legal document and provide a structured JSON analysis with keys \"fairnessScore\", \"summary\", and \"riskRadar\". The riskRadar should be an array of objects, each with \"level\", \"title\", and \"explanation\".\<newline>\<newline>DOCUMENT:\<newline>''
       @ document_text"

definition reformat_prompt :: "pystr \<Rightarrow> pystr" where
  "reformat_prompt document_text =
     S ''Reformat the following text for maximum readability, applying proper paragraphs and structure. Do not change the wording. Return only the formatted text.\<newline>\<newline>DOCUMENT:\<newline>''
       @ document_text"

definition simplify_prompt :: "pystr \<Rightarrow> pystr" where
  "simplify_prompt document_text =
     S ''Rewrite the following document in plain, easy-to-understand language. Maintain the original structure. Return only the simplified text.\<newline>\<newline>DOCUMENT:\<newline>''
       @ document_text"

definition chat_prompt :: "pystr \<Rightarrow> pystr \<Rightarrow> pystr" where
  "chat_prompt document_text question =
     S ''Based ONLY on the document text provided, answer the user's question concisely.\<newline>\<newline>DOCUMENT:\<newline>''
       @ document_text @ S ''\<newline>\<newline>QUESTION:\<newline>'' @ question"

text \<open>Lines 102 to 107: the response interpreter of the analyze task.\<close>

definition fence :: pystr where
  "fence = S ''```''"

definition fence_json :: pystr where
  "fence_json = S ''```json''"

definition cleaned_text :: "pystr \<Rightarrow> pystr" where
  "cleaned_text response_text =
     str_strip (str_replace fence [] (str_replace fence_json [] response_text))"

definition fallback_analysis :: json where
  "fallback_analysis =
     JObj [(S ''fairnessScore'', JInt 0), (S ''summary'', JStr (S ''Could not analyze.'')),
           (S ''riskRadar'', JArr [])]"

text \<open>
  The \<^verbatim>\<open>except\<close> clause of line 106 names \<^verbatim>\<open>json.JSONDecodeError\<close>: any other exception of
  \<^verbatim>\<open>json.loads\<close> leaves the function. A value that is not a \<open>str\<close> has no method
  \<^verbatim>\<open>replace\<close>.
\<close>

fun interpret_response :: "env \<Rightarrow> json \<Rightarrow> exc + json" where
  "interpret_response env (JStr response_text) =
     (case json_loads env (cleaned_text response_text) of
        Inr analysis_data \<Rightarrow> Inr analysis_data
      | Inl e \<Rightarrow> if is_json_decode_error e then Inr fallback_analysis else Inl e)"
| "interpret_response env JNull = Inl (Builtin AttributeError)"
| "interpret_response env (JBool b) = Inl (Builtin AttributeError)"
| "interpret_response env (JInt i) = Inl (Builtin AttributeError)"
| "interpret_response env (JFloat w) = Inl (Builtin AttributeError)"
| "interpret_response env (JArr xs) = Inl (Builtin AttributeError)"
| "interpret_response env (JObj kvs) = Inl (Builtin AttributeError)"

definition analyze_document_with_gemini :: "env \<Rightarrow> json \<Rightarrow> world \<Rightarrow> (exc + json) \<times> world" where
  "analyze_document_with_gemini env document_text w =
     (case call_gemini_api env (analyze_prompt (py_format env document_text)) w of
        (Inl e, w') \<Rightarrow> (Inl e, w')
      | (Inr response_text, w') \<Rightarrow> (interpret_response env response_text, w'))"

definition reformat_document_with_gemini :: "env \<Rightarrow> json \<Rightarrow> world \<Rightarrow> (exc + json) \<times> world" where
  "reformat_document_with_gemini env document_text w =
     call_gemini_api env (reformat_prompt (py_format env document_text)) w"

definition simplify_document_with_gemini :: "env \<Rightarrow> json \<Rightarrow> world \<Rightarrow> (exc + json) \<times> world" where
  "simplify_document_with_gemini env document_text w =
     call_gemini_api env (simplify_prompt (py_format env document_text)) w"

definition answer_chat_question :: "env \<Rightarrow> json \<Rightarrow> json \<Rightarrow> world \<Rightarrow> (exc + json) \<times> world" where
  "answer_chat_question env document_text question w =
     call_gemini_api env (chat_prompt (py_format env document_text) (py_format env question)) w"

section \<open>Request handlers\<close>

text \<open>
  A request: the uploaded files by form field, and what \<^verbatim>\<open>request.get_json()\<close> returns
  or raises. A response: the value given to \<^verbatim>\<open>jsonify\<close> and the status code.
\<close>

record file_storage =
  filename :: pystr
  mimetype :: pystr
  content :: bytes

record request =
  files :: "(pystr \<times> file_storage) list"
  get_json :: "exc + json"

type_synonym response = "json \<times> int"

definition error_body :: "pystr \<Rightarrow> json" where
  "error_body message = JObj [(S ''error'', JStr message)]"

text \<open>The body of the \<^verbatim>\<open>try\<close> of each handler, then the handler with its \<^verbatim>\<open>except\<close>.\<close>

definition analyze_try :: "env \<Rightarrow> request \<Rightarrow> world \<Rightarrow> (exc + response) \<times> world" where
  "analyze_try env req w =
     (case map_of (files req) (S ''file'') of
        None \<Rightarrow> (Inr (error_body (S ''No file part''), 400), w)
      | Some file \<Rightarrow>
          if filename file = [] then (Inr (error_body (S ''No file selected''), 400), w)
          else
            (case get_text_from_file env (content file) (mimetype file) w of
               (Inl e, w1) \<Rightarrow> (Inl e, w1)
             | (Inr raw_text, w1) \<Rightarrow>
                 (case reformat_document_with_gemini env (JStr raw_text) w1 of
                    (Inl e, w2) \<Rightarrow> (Inl e, w2)
                  | (Inr formatted_text, w2) \<Rightarrow>
                      (case analyze_document_with_gemini env formatted_text w2 of
                         (Inl e, w3) \<Rightarrow> (Inl e, w3)
                       | (Inr analysis_data, w3) \<Rightarrow>
                           (Inr (JObj [(S ''analysis'', analysis_data),
                                       (S ''fullText'', formatted_text)], 200), w3)))))"

definition analyze_endpoint :: "env \<Rightarrow> request \<Rightarrow> world \<Rightarrow> response \<times> world" where
  "analyze_endpoint env req w =
     (case analyze_try env req w of
        (Inr resp, w') \<Rightarrow> (resp, w')
      | (Inl e, w') \<Rightarrow>
          ((error_body (exc_str env e), 500),
           print (S ''!!! ERROR in /analyze: '' @ exc_str env e) w'))"

definition simplify_try :: "env \<Rightarrow> request \<Rightarrow> world \<Rightarrow> (exc + response) \<times> world" where
  "simplify_try env req w =
     (case get_json req of
        Inl e \<Rightarrow> (Inl e, w)
      | Inr data \<Rightarrow>
          if \<not> py_truthy data then (Inr (error_body (S ''Missing document text''), 400), w)
          else
            (case py_contains data (S ''documentText'') of
               Inl e \<Rightarrow> (Inl e, w)
             | Inr False \<Rightarrow> (Inr (error_body (S ''Missing document text''), 400), w)
             | Inr True \<Rightarrow>
                 (case getitem_str data (S ''documentText'') of
                    Inl e \<Rightarrow> (Inl e, w)
                  | Inr document_text \<Rightarrow>
                      (case simplify_document_with_gemini env document_text w of
                         (Inl e, w') \<Rightarrow> (Inl e, w')
                       | (Inr simplified_text, w') \<Rightarrow>
                           (Inr (JObj [(S ''simplifiedText'', simplified_text)], 200), w')))))"

definition simplify_endpoint :: "env \<Rightarrow> request \<Rightarrow> world \<Rightarrow> response \<times> world" where
  "simplify_endpoint env req w =
     (case simplify_try env req w of
        (Inr resp, w') \<Rightarrow> (resp, w')
      | (Inl e, w') \<Rightarrow>
          ((error_body (S ''Could not simplify the document.''), 500),
           print (S ''!!! ERROR in /simplify: '' @ exc_str env e) w'))"

definition chat_try :: "env \<Rightarrow> request \<Rightarrow> world \<Rightarrow> (exc + response) \<times> world" where
  "chat_try env req w =
     (case get_json req of
        Inl e \<Rightarrow> (Inl e, w)
      | Inr data \<Rightarrow>
          if \<not> py_truthy data then (Inr (error_body (S ''Missing data''), 400), w)
          else
            (case py_contains data (S ''question'') of
               Inl e \<Rightarrow> (Inl e, w)
             | Inr False \<Rightarrow> (Inr (error_body (S ''Missing data''), 400), w)
             | Inr True \<Rightarrow>
                 (case py_contains data (S ''documentText'') of
                    Inl e \<Rightarrow> (Inl e, w)
                  | Inr False \<Rightarrow> (Inr (error_body (S ''Missing data''), 400), w)
                  | Inr True \<Rightarrow>
                      (case getitem_str data (S ''documentText'') of
                         Inl e \<Rightarrow> (Inl e, w)
                       | Inr document_text \<Rightarrow>
                           (case getitem_str data (S ''question'') of
                              Inl e \<Rightarrow> (Inl e, w)
                            | Inr question \<Rightarrow>
                                (case answer_chat_question env document_text question w of
                                   (Inl e, w') \<Rightarrow> (Inl e, w')
                                 | (Inr answer, w') \<Rightarrow>
                                     (Inr (JObj [(S ''answer'', answer)], 200), w')))))))"

definition chat_endpoint :: "env \<Rightarrow> request \<Rightarrow> world \<Rightarrow> response \<times> world" where
  "chat_endpoint env req w =
     (case chat_try env req w of
        (Inr resp, w') \<Rightarrow> (resp, w')
      | (Inl e, w') \<Rightarrow>
          ((error_body (S ''Could not process question.''), 500),
           print (S ''!!! ERROR in /chat: '' @ exc_str env e) w'))"

text \<open>
  Line 166 of \<^verbatim>\<open>app.py\<close> reads \<^verbatim>\<open>user = auth..create_user(email=email, password=password)\<close>.
  With its two dots the line is not Python, and the interpreter rejects the file before any
  handler is registered. The handler is modelled with the single call
  \<^verbatim>\<open>auth.create_user(...)\<close> that the line is meant to make.
\<close>

definition signup_error_message :: "exc \<Rightarrow> pystr" where
  "signup_error_message e =
     (case exc_code e of
        None \<Rightarrow> S ''An unknown error occurred.''
      | Some code \<Rightarrow>
          if code = JStr (S ''EMAIL_EXISTS'') then S ''The email address is already in use.''
          else if code = JStr (S ''WEAK_PASSWORD'') then S ''Password should be at least 6 characters.''
          else S ''An unknown error occurred.'')"

definition signup_try :: "env \<Rightarrow> request \<Rightarrow> world \<Rightarrow> (exc + response) \<times> world" where
  "signup_try env req w =
     (case get_json req of
        Inl e \<Rightarrow> (Inl e, w)
      | Inr data \<Rightarrow>
          (case py_get data (S ''email'') of
             Inl e \<Rightarrow> (Inl e, w)
           | Inr email \<Rightarrow>
               (case py_get data (S ''password'') of
                  Inl e \<Rightarrow> (Inl e, w)
                | Inr password \<Rightarrow>
                    if \<not> py_truthy email \<or> \<not> py_truthy password
                    then (Inr (error_body (S ''Email and password are required''), 400), w)
                    else
                      (case create_user env (calls w) email password of
                         Inl e \<Rightarrow> (Inl e, record_call (CreateUser email password) w)
                       | Inr user \<Rightarrow>
                           (Inr (JObj [(S ''uid'', JStr (uid user))], 201),
                            record_call (CreateUser email password) w)))))"

definition signup :: "env \<Rightarrow> request \<Rightarrow> world \<Rightarrow> response \<times> world" where
  "signup env req w =
     (case signup_try env req w of
        (Inr resp, w') \<Rightarrow> (resp, w')
      | (Inl e, w') \<Rightarrow>
          ((error_body (signup_error_message e), 400),
           print (S ''!!! ERROR in /signup: '' @ exc_str env e) w'))"

section \<open>Concrete environments and requests\<close>

text \<open>
  A text-generation service that answers the first request with \<^verbatim>\<open>A.\<close> and every later
  one with a fenced empty JSON object, and variations
  of it in which the service is down, answers with another status, or reports an existing
  account. The theorems are evaluated on them.
\<close>

text \<open>
  A parser that agrees with \<^verbatim>\<open>json.loads\<close> of CPython 3.11 on the empty object and on the
  unsigned integer literals, and takes every other string for no JSON document. An
  integer literal is converted by \<^verbatim>\<open>int\<close>, which raises \<open>ValueError\<close> on more than 4300 digits
  (the default of \<^verbatim>\<open>sys.get_int_max_str_digits()\<close>).
\<close>

definition is_digit :: "codepoint \<Rightarrow> bool" where
  "is_digit c = (48 \<le> c \<and> c \<le> 57)"

definition is_int_literal :: "pystr \<Rightarrow> bool" where
  "is_int_literal s = (s \<noteq> [] \<and> list_all is_digit s \<and> (hd s \<noteq> 48 \<or> length s = 1))"

definition int_of_digits :: "pystr \<Rightarrow> int" where
  "int_of_digits s = foldl (\<lambda>n c. 10 * n + (int c - 48)) 0 s"

definition int_max_str_digits :: nat where
  "int_max_str_digits = 4300"

definition demo_json_loads :: "pystr \<Rightarrow> exc + json" where
  "demo_json_loads s =
     (if s = S ''{}'' then Inr (JObj [])
      else if is_int_literal s then
        (if int_max_str_digits < length s then Inl (Builtin ValueError)
         else Inr (JInt (int_of_digits s)))
      else Inl (JSONDecodeError (S ''Expecting value'')))"

definition gemini_reply :: "int \<Rightarrow> pystr \<Rightarrow> http_response" where
  "gemini_reply status t =
     \<lparr>status_code = status, body_text = S ''{...}'',
      body_json = Inr (JObj [(S ''candidates'',
        JArr [JObj [(S ''content'', JObj [(S ''parts'', JArr [JObj [(S ''text'', JStr t)]])])]])])\<rparr>"

definition demo_env :: env where
  "demo_env =
     \<lparr>API_KEY = S ''key'',
      py_str = (\<lambda>x. S ''?''),
      builtin_str = (\<lambda>b. S ''error''),
      json_loads = demo_json_loads,
      utf8_decode = (\<lambda>b. if b = [0x41] then Some (S ''A'') else None),
      docx_paragraphs = (\<lambda>b. Inr [S ''Lease'', S ''Rent'']),
      vision_detect = (\<lambda>h b. Inr \<lparr>error_message = [], full_text = S ''Lease''\<rparr>),
      requests_post = (\<lambda>h url headers data.
         Inr (gemini_reply 200 (if h = [] then S ''A.'' else S ''```json\<newline>{}\<newline>```''))),
      create_user = (\<lambda>h email password. Inr \<lparr>uid = S ''u123''\<rparr>)\<rparr>"

definition world0 :: world where
  "world0 = \<lparr>calls = [], stdout = []\<rparr>"

definition demo_upload :: request where
  "demo_upload =
     \<lparr>files = [(S ''file'', \<lparr>filename = S ''a.txt'', mimetype = S ''text/plain'', content = [0x41]\<rparr>)],
      get_json = Inl (Foreign (S ''415 Unsupported Media Type'') (Some (JInt 415)))\<rparr>"



definition env_replying :: "exc + http_response \<Rightarrow> env" where
  "env_replying reply = demo_env\<lparr>requests_post := (\<lambda>h url headers data. reply)\<rparr>"

definition no_candidates_reply :: http_response where
  "no_candidates_reply =
     \<lparr>status_code = 200, body_text = S ''{\"candidates\": []}'',
      body_json = Inr (JObj [(S ''candidates'', JArr [])])\<rparr>"

definition connection_refused :: exc where
  "connection_refused = Foreign (S ''Connection refused'') None"

definition env_second_call_fails :: env where
  "env_second_call_fails =
     demo_env\<lparr>requests_post := (\<lambda>h url headers data.
        if h = [] then Inr (gemini_reply 200 (S ''A.'')) else Inl connection_refused)\<rparr>"

definition env_email_exists :: env where
  "env_email_exists =
     demo_env\<lparr>create_user := (\<lambda>h email password.
        Inl (Foreign (S ''The user with the provided email already exists (EMAIL_EXISTS).'')
               (Some (JStr (S ''EMAIL_EXISTS'')))))\<rparr>"

definition empty_upload :: request where
  "empty_upload =
     \<lparr>files = [(S ''file'', \<lparr>filename = S ''a.pdf'', mimetype = S ''application/pdf'', content = []\<rparr>)],
      get_json = Inl (Foreign (S ''415 Unsupported Media Type'') (Some (JInt 415)))\<rparr>"

definition json_request :: "json \<Rightarrow> request" where
  "json_request body = \<lparr>files = [], get_json = Inr body\<rparr>"

definition empty_simplify :: request where
  "empty_simplify = json_request (JObj [(S ''documentText'', JStr [])])"

definition empty_chat :: request where
  "empty_chat = json_request (JObj [(S ''documentText'', JStr []), (S ''question'', JStr [])])"

definition demo_signup :: request where
  "demo_signup =
     json_request (JObj [(S ''email'', JStr (S ''a@b.com'')), (S ''password'', JStr (S ''secret1''))])"

section \<open>Facts about the model\<close>

lemmas model_defs =
  get_text_from_file_def call_gemini_api_def read_response_def first_candidate_text_def
  then_exc_def record_call_def print_def gemini_url_def gemini_headers_def gemini_data_def
  model_name_def analyze_prompt_def reformat_prompt_def simplify_prompt_def chat_prompt_def
  cleaned_text_def fence_def fence_json_def str_strip_def py_isspace_def error_body_def
  fallback_analysis_def analyze_document_with_gemini_def reformat_document_with_gemini_def
  simplify_document_with_gemini_def answer_chat_question_def
  analyze_try_def analyze_endpoint_def simplify_try_def simplify_endpoint_def
  chat_try_def chat_endpoint_def signup_try_def signup_def signup_error_message_def
  str_int_def str_nat.simps str_replace.simps sublist_code S_def

lemmas demo_defs =
  demo_env_def world0_def demo_upload_def gemini_reply_def env_replying_def
  no_candidates_reply_def connection_refused_def env_second_call_fails_def
  env_email_exists_def empty_upload_def json_request_def empty_simplify_def empty_chat_def
  demo_signup_def demo_json_loads_def is_int_literal_def is_digit_def int_of_digits_def
  int_max_str_digits_def

subsection \<open>Calls recorded by the generation client\<close>

lemma snd_call_gemini_api:
  "snd (call_gemini_api env prompt w)
     = record_call (HttpPost (gemini_url env) gemini_headers (gemini_data prompt)) w"
  by (simp add: call_gemini_api_def Let_def)

lemma calls_record_call: "calls (record_call c w) = calls w @ [c]"
  by (simp add: record_call_def)

lemma snd_analyze_document_with_gemini:
  "snd (analyze_document_with_gemini env document_text w)
     = record_call (HttpPost (gemini_url env) gemini_headers
         (gemini_data (analyze_prompt (py_format env document_text)))) w"
proof -
  obtain r w' where c: "call_gemini_api env (analyze_prompt (py_format env document_text)) w = (r, w')"
    by (cases "call_gemini_api env (analyze_prompt (py_format env document_text)) w")
  then have "w' = record_call (HttpPost (gemini_url env) gemini_headers
         (gemini_data (analyze_prompt (py_format env document_text)))) w"
    using snd_call_gemini_api [of env "analyze_prompt (py_format env document_text)" w] by simp
  then show ?thesis using c by (cases r) (simp_all add: analyze_document_with_gemini_def)
qed

subsection \<open>Keys of a dict\<close>

lemma map_of_Some_key: "map_of kvs k = Some v \<Longrightarrow> k \<in> fst ` set kvs"
  by (force dest: map_of_SomeD)

lemma map_of_Some_nonempty: "map_of kvs k = Some v \<Longrightarrow> kvs \<noteq> []"
  by auto

lemma simplify_try_present:
  assumes "get_json req = Inr (JObj kvs)" and "map_of kvs (S ''documentText'') = Some v"
  shows "simplify_try env req w =
           (case simplify_document_with_gemini env v w of
              (Inl e, w') \<Rightarrow> (Inl e, w')
            | (Inr simplified_text, w') \<Rightarrow>
                (Inr (JObj [(S ''simplifiedText'', simplified_text)], 200), w'))"
  using assms map_of_Some_key [OF assms(2)] map_of_Some_nonempty [OF assms(2)]
  by (simp add: simplify_try_def)

lemma chat_try_present:
  assumes "get_json req = Inr (JObj kvs)" and "map_of kvs (S ''documentText'') = Some d"
    and "map_of kvs (S ''question'') = Some q"
  shows "chat_try env req w =
           (case answer_chat_question env d q w of
              (Inl e, w') \<Rightarrow> (Inl e, w')
            | (Inr answer, w') \<Rightarrow> (Inr (JObj [(S ''answer'', answer)], 200), w'))"
  using assms map_of_Some_key [OF assms(2)] map_of_Some_key [OF assms(3)]
    map_of_Some_nonempty [OF assms(2)]
  by (simp add: chat_try_def)

lemma simplify_endpoint_present:
  assumes "get_json req = Inr (JObj kvs)" and "map_of kvs (S ''documentText'') = Some (JStr d)"
  shows "snd (fst (simplify_endpoint env req w)) \<noteq> 400
       \<and> calls (snd (simplify_endpoint env req w)) = calls w @
            [HttpPost (gemini_url env) gemini_headers (gemini_data (simplify_prompt d))]"
proof -
  obtain r w' where c: "call_gemini_api env (simplify_prompt d) w = (r, w')"
    by (cases "call_gemini_api env (simplify_prompt d) w")
  then have w': "w' = record_call (HttpPost (gemini_url env) gemini_headers
                         (gemini_data (simplify_prompt d))) w"
    using snd_call_gemini_api [of env "simplify_prompt d" w] by simp
  show ?thesis
    using c w'
    by (cases r)
       (simp_all add: simplify_endpoint_def simplify_try_present [OF assms]
          simplify_document_with_gemini_def record_call_def print_def)
qed

lemma chat_endpoint_present:
  assumes "get_json req = Inr (JObj kvs)" and "map_of kvs (S ''documentText'') = Some (JStr d)"
    and "map_of kvs (S ''question'') = Some (JStr q)"
  shows "snd (fst (chat_endpoint env req w)) \<noteq> 400
       \<and> calls (snd (chat_endpoint env req w)) = calls w @
            [HttpPost (gemini_url env) gemini_headers (gemini_data (chat_prompt d q))]"
proof -
  obtain r w' where c: "call_gemini_api env (chat_prompt d q) w = (r, w')"
    by (cases "call_gemini_api env (chat_prompt d q) w")
  then have w': "w' = record_call (HttpPost (gemini_url env) gemini_headers
                         (gemini_data (chat_prompt d q))) w"
    using snd_call_gemini_api [of env "chat_prompt d q" w] by simp
  show ?thesis
    using c w'
    by (cases r)
       (simp_all add: chat_endpoint_def chat_try_present [OF assms]
          answer_chat_question_def record_call_def print_def)
qed

subsection \<open>Replacing a run of one character\<close>






lemma str_replace_absent:
  "old \<noteq> [] \<Longrightarrow> hd old \<notin> set s \<Longrightarrow> str_replace old new s = s"
proof (induction s)
  case Nil
  then show ?case by (simp add: str_replace.simps [of old new "[]"])
next
  case (Cons x t)
  then have "\<not> prefix old (x # t)" by (cases old) auto
  then show ?case using Cons by (simp add: str_replace.simps [of old new "x # t"])
qed

lemma no_backquote: "96 \<notin> set s \<Longrightarrow> cleaned_text s = str_strip s"
  by (simp add: cleaned_text_def str_replace_absent fence_def fence_json_def S_def)

subsection \<open>A long integer literal\<close>

lemma str_strip_no_space:
  "s \<noteq> [] \<Longrightarrow> \<not> py_isspace (hd s) \<Longrightarrow> \<not> py_isspace (last s) \<Longrightarrow> str_strip s = s"
proof -
  assume ne: "s \<noteq> []" and h: "\<not> py_isspace (hd s)" and l: "\<not> py_isspace (last s)"
  from ne h have 1: "dropWhile py_isspace s = s" by (cases s) auto
  from ne l have "\<not> py_isspace (hd (rev s))" by (simp add: hd_rev)
  with ne have 2: "dropWhile py_isspace (rev s) = rev s" by (cases "rev s") auto
  show ?thesis by (simp add: str_strip_def 1 2)
qed

lemma cleaned_digits: "cleaned_text (replicate 4301 49) = replicate 4301 49"
proof -
  have "96 \<notin> set (replicate 4301 (49::nat))" by simp
  then have "cleaned_text (replicate 4301 49) = str_strip (replicate 4301 49)"
    by (rule no_backquote)
  also have "\<dots> = replicate 4301 49"
    by (rule str_strip_no_space) (simp_all add: py_isspace_def)
  finally show ?thesis .
qed

lemma demo_loads_many_digits:
  "demo_json_loads (replicate 4301 49) = Inl (Builtin ValueError)"
proof -
  have "replicate 4301 (49::nat) \<noteq> S ''{}''"
  proof
    assume "replicate 4301 (49::nat) = S ''{}''"
    then have "length (replicate 4301 (49::nat)) = length (S ''{}'')" by simp
    then show False by (simp add: S_def)
  qed
  moreover have "is_int_literal (replicate 4301 49)"
    by (simp add: is_int_literal_def is_digit_def list_all_iff)
  ultimately show ?thesis
    by (simp add: demo_json_loads_def int_max_str_digits_def)
qed

section \<open>The claims\<close>

text \<open>
  Claim C1, as the code has it. For every response string, the response interpreter of
  the analyze task returns the value that \<^verbatim>\<open>json.loads\<close> parses from the cleaned string,
  and, when \<^verbatim>\<open>json.loads\<close> raises a \<^verbatim>\<open>JSONDecodeError\<close>, exactly the fallback value with
  \<^verbatim>\<open>fairnessScore\<close> 0, \<^verbatim>\<open>summary\<close> \<^verbatim>\<open>Could not analyze.\<close> and an empty \<^verbatim>\<open>riskRadar\<close>. Any
  other exception of \<^verbatim>\<open>json.loads\<close> is not caught: the interpreter raises it, and so does
  \<^verbatim>\<open>analyze_document_with_gemini\<close>.
\<close>

theorem interpret_catches_decode_errors_only:
  "(\<forall>parsed. json_loads env (cleaned_text response_text) = Inr parsed \<longrightarrow>
      interpret_response env (JStr response_text) = Inr parsed)
 \<and> (\<forall>m. json_loads env (cleaned_text response_text) = Inl (JSONDecodeError m) \<longrightarrow>
      interpret_response env (JStr response_text)
        = Inr (JObj [(S ''fairnessScore'', JInt 0),
                     (S ''summary'', JStr (S ''Could not analyze.'')),
                     (S ''riskRadar'', JArr [])]))
 \<and> (\<forall>e. json_loads env (cleaned_text response_text) = Inl e \<and> \<not> is_json_decode_error e \<longrightarrow>
      interpret_response env (JStr response_text) = Inl e)
 \<and> (\<forall>w'. call_gemini_api env (analyze_prompt (py_format env document_text)) w
              = (Inr (JStr response_text), w') \<longrightarrow>
      analyze_document_with_gemini env document_text w
        = (interpret_response env (JStr response_text), w'))"
  by (simp add: analyze_document_with_gemini_def fallback_analysis_def)

theorem interpret_catches_decode_errors_only_witness:
  "interpret_response demo_env (JStr (S ''```json\<newline>{}\<newline>```'')) = Inr (JObj [])
 \<and> interpret_response demo_env (JStr (S ''Sorry, I cannot help.''))
     = Inr (JObj [(S ''fairnessScore'', JInt 0), (S ''summary'', JStr (S ''Could not analyze.'')),
                  (S ''riskRadar'', JArr [])])
 \<and> interpret_response demo_env (JStr (replicate 4301 49)) = Inl (Builtin ValueError)
 \<and> fst (analyze_document_with_gemini demo_env (JStr (S ''Lease'')) world0)
     = Inr (JObj [(S ''fairnessScore'', JInt 0), (S ''summary'', JStr (S ''Could not analyze.'')),
                  (S ''riskRadar'', JArr [])])"
proof -
  let ?ok = "S ''```json\<newline>{}\<newline>```''"
  let ?bad = "S ''Sorry, I cannot help.''"
  let ?big = "replicate 4301 (49::nat)"
  have a: "json_loads demo_env (cleaned_text ?ok) = Inr (JObj [])"
    by (simp add: model_defs demo_defs)
  have b: "json_loads demo_env (cleaned_text ?bad) = Inl (JSONDecodeError (S ''Expecting value''))"
    by (simp add: model_defs demo_defs)
  have c: "json_loads demo_env (cleaned_text ?big) = Inl (Builtin ValueError)
           \<and> \<not> is_json_decode_error (Builtin ValueError)"
    by (simp add: cleaned_digits demo_loads_many_digits demo_env_def)
  have d: "call_gemini_api demo_env (analyze_prompt (py_format demo_env (JStr (S ''Lease'')))) world0
             = (Inr (JStr (S ''A.'')),
                snd (call_gemini_api demo_env
                       (analyze_prompt (py_format demo_env (JStr (S ''Lease'')))) world0))"
    by (simp add: model_defs demo_defs)
  have e: "json_loads demo_env (cleaned_text (S ''A.'')) = Inl (JSONDecodeError (S ''Expecting value''))"
    by (simp add: model_defs demo_defs)
  have 1: "interpret_response demo_env (JStr ?ok) = Inr (JObj [])"
    using interpret_catches_decode_errors_only [of demo_env ?ok] a by blast
  have 2: "interpret_response demo_env (JStr ?bad)
     = Inr (JObj [(S ''fairnessScore'', JInt 0), (S ''summary'', JStr (S ''Could not analyze.'')),
                  (S ''riskRadar'', JArr [])])"
    using interpret_catches_decode_errors_only [of demo_env ?bad] b by blast
  have 3: "interpret_response demo_env (JStr ?big) = Inl (Builtin ValueError)"
    using interpret_catches_decode_errors_only [of demo_env ?big] c by blast
  have "interpret_response demo_env (JStr (S ''A.''))
     = Inr (JObj [(S ''fairnessScore'', JInt 0), (S ''summary'', JStr (S ''Could not analyze.'')),
                  (S ''riskRadar'', JArr [])])"
    using interpret_catches_decode_errors_only [of demo_env "S ''A.''"] e by blast
  moreover have "analyze_document_with_gemini demo_env (JStr (S ''Lease'')) world0
     = (interpret_response demo_env (JStr (S ''A.'')),
        snd (call_gemini_api demo_env
               (analyze_prompt (py_format demo_env (JStr (S ''Lease'')))) world0))"
    using interpret_catches_decode_errors_only
      [of demo_env "S ''A.''" "JStr (S ''Lease'')" world0] d
    by blast
  ultimately have 4: "fst (analyze_document_with_gemini demo_env (JStr (S ''Lease'')) world0)
     = Inr (JObj [(S ''fairnessScore'', JInt 0), (S ''summary'', JStr (S ''Could not analyze.'')),
                  (S ''riskRadar'', JArr [])])"
    by simp
  from 1 2 3 4 show ?thesis by simp
qed

text \<open>
  Claim C1 as stated fails: on a response that is an integer literal of 4301 digits,
  \<^verbatim>\<open>json.loads\<close> raises \<open>ValueError\<close>, which is no \<^verbatim>\<open>JSONDecodeError\<close>; the interpreter
  raises it and returns neither a parsed value nor the fallback.
\<close>

theorem interpret_raises_counterexample:
  "interpret_response demo_env (JStr (replicate 4301 49)) = Inl (Builtin ValueError)"
  by (simp add: cleaned_digits demo_loads_many_digits demo_env_def)

text \<open>
  Claim C2. On a request with a file part and a non-empty filename, when the three stages
  succeed, the analyze handler extracts the text, then sends the reformat prompt built from
  the extracted text, then sends the analyze prompt built from the formatted text (not from
  the extracted one), in this order, and answers 200 with the analysis under \<^verbatim>\<open>analysis\<close> and
  the formatted text under \<^verbatim>\<open>fullText\<close>.
\<close>

theorem analyze_pipeline_order:
  assumes "map_of (files req) (S ''file'') = Some file"
    and "filename file \<noteq> []"
    and "get_text_from_file env (content file) (mimetype file) w = (Inr raw_text, w1)"
    and "reformat_document_with_gemini env (JStr raw_text) w1 = (Inr formatted_text, w2)"
    and "analyze_document_with_gemini env formatted_text w2 = (Inr analysis_data, w3)"
  shows "analyze_endpoint env req w
           = ((JObj [(S ''analysis'', analysis_data), (S ''fullText'', formatted_text)], 200), w3)
         \<and> calls w3 = calls w1 @
             [HttpPost (gemini_url env) gemini_headers (gemini_data (reformat_prompt raw_text)),
              HttpPost (gemini_url env) gemini_headers
                (gemini_data (analyze_prompt (py_format env formatted_text)))]"
proof -
  have r: "analyze_endpoint env req w
           = ((JObj [(S ''analysis'', analysis_data), (S ''fullText'', formatted_text)], 200), w3)"
    using assms by (simp add: analyze_endpoint_def analyze_try_def)
  have "w2 = snd (reformat_document_with_gemini env (JStr raw_text) w1)"
    using assms(4) by simp
  then have w2: "calls w2 = calls w1 @
      [HttpPost (gemini_url env) gemini_headers (gemini_data (reformat_prompt raw_text))]"
    by (simp add: reformat_document_with_gemini_def snd_call_gemini_api calls_record_call)
  have "w3 = snd (analyze_document_with_gemini env formatted_text w2)"
    using assms(5) by simp
  then have "calls w3 = calls w2 @ [HttpPost (gemini_url env) gemini_headers
                (gemini_data (analyze_prompt (py_format env formatted_text)))]"
    by (simp add: snd_analyze_document_with_gemini calls_record_call)
  with w2 r show ?thesis by simp
qed

theorem analyze_pipeline_order_witness:
  "analyze_endpoint demo_env demo_upload world0
     = ((JObj [(S ''analysis'', JObj []), (S ''fullText'', JStr (S ''A.''))], 200),
        \<lparr>calls =
           [HttpPost (gemini_url demo_env) gemini_headers (gemini_data (reformat_prompt (S ''A''))),
            HttpPost (gemini_url demo_env) gemini_headers (gemini_data (analyze_prompt (S ''A.'')))],
         stdout = []\<rparr>)"
proof -
  let ?file = "\<lparr>filename = S ''a.txt'', mimetype = S ''text/plain'', content = [0x41]\<rparr>"
  let ?w2 = "\<lparr>calls =
     [HttpPost (gemini_url demo_env) gemini_headers (gemini_data (reformat_prompt (S ''A'')))],
     stdout = []\<rparr>"
  let ?w3 = "\<lparr>calls =
     [HttpPost (gemini_url demo_env) gemini_headers (gemini_data (reformat_prompt (S ''A''))),
      HttpPost (gemini_url demo_env) gemini_headers (gemini_data (analyze_prompt (S ''A.'')))],
     stdout = []\<rparr>"
  have h1: "map_of (files demo_upload) (S ''file'') = Some ?file"
    by (simp add: demo_defs S_def)
  have h2: "filename ?file \<noteq> []" by (simp add: S_def)
  have h3: "get_text_from_file demo_env (content ?file) (mimetype ?file) world0
              = (Inr (S ''A''), world0)"
    by (simp add: model_defs demo_defs)
  have h4: "reformat_document_with_gemini demo_env (JStr (S ''A'')) world0
              = (Inr (JStr (S ''A.'')), ?w2)"
    by (simp add: model_defs demo_defs)
  have h5: "analyze_document_with_gemini demo_env (JStr (S ''A.'')) ?w2 = (Inr (JObj []), ?w3)"
    by (simp add: model_defs demo_defs)
  show ?thesis using analyze_pipeline_order [OF h1 h2 h3 h4 h5] by simp
qed

text \<open>
  Claim C3, as the code has it. The generation client tests the status code against 200,
  not against the range 200 to 299. A reply with any other status, 201 included, fails with
  a message that holds the status code and the response body. A reply with status 200 and
  no or an empty candidate list fails with the message about candidates. A reply with
  status 200 whose first candidate has a first content part with a \<^verbatim>\<open>text\<close> yields that text
  unchanged.
\<close>

theorem call_gemini_api_status_200:
  assumes "requests_post env (calls w) (gemini_url env) gemini_headers (gemini_data prompt)
             = Inr response"
  shows "(status_code response \<noteq> 200 \<longrightarrow>
            fst (call_gemini_api env prompt w)
              = Inl (Exception (S ''Google API Error: '' @ str_int (status_code response)
                                  @ S '' '' @ body_text response)))
       \<and> (\<forall>kvs. status_code response = 200 \<and> body_json response = Inr (JObj kvs)
              \<and> (map_of kvs (S ''candidates'') = None
                   \<or> map_of kvs (S ''candidates'') = Some (JArr [])) \<longrightarrow>
            fst (call_gemini_api env prompt w)
              = Inl (Exception (S ''API returned no candidates. The prompt may have been blocked.'')))
       \<and> (\<forall>kvs candidate rest content part parts t.
            status_code response = 200 \<and> body_json response = Inr (JObj kvs)
              \<and> map_of kvs (S ''candidates'') = Some (JArr (JObj candidate # rest))
              \<and> map_of candidate (S ''content'') = Some (JObj content)
              \<and> map_of content (S ''parts'') = Some (JArr (JObj part # parts))
              \<and> map_of part (S ''text'') = Some t \<longrightarrow>
            fst (call_gemini_api env prompt w) = Inr t)"
  using assms
  by (auto simp add: call_gemini_api_def Let_def read_response_def then_exc_def
        first_candidate_text_def)

theorem call_gemini_api_status_200_witness:
  "fst (call_gemini_api (env_replying (Inr (gemini_reply 404 (S '' Hello '')))) (S ''Hi'') world0)
     = Inl (Exception (S ''Google API Error: 404 {...}''))
 \<and> fst (call_gemini_api (env_replying (Inr no_candidates_reply)) (S ''Hi'') world0)
     = Inl (Exception (S ''API returned no candidates. The prompt may have been blocked.''))
 \<and> fst (call_gemini_api (env_replying (Inr (gemini_reply 200 (S '' Hello '')))) (S ''Hi'') world0)
     = Inr (JStr (S '' Hello ''))"
proof -
  let ?p = "S ''Hi''"
  have a: "requests_post (env_replying r) (calls world0) (gemini_url (env_replying r))
             gemini_headers (gemini_data ?p) = r" for r
    by (simp add: env_replying_def)
  have n: "status_code (gemini_reply 404 (S '' Hello '')) \<noteq> 200"
    by (simp add: gemini_reply_def)
  have c: "status_code no_candidates_reply = 200
           \<and> body_json no_candidates_reply = Inr (JObj [(S ''candidates'', JArr [])])
           \<and> (map_of [(S ''candidates'', JArr [])] (S ''candidates'') = None
                \<or> map_of [(S ''candidates'', JArr [])] (S ''candidates'') = Some (JArr []))"
    by (simp add: no_candidates_reply_def)
  let ?part = "[(S ''text'', JStr (S '' Hello ''))]"
  let ?content = "[(S ''parts'', JArr [JObj ?part])]"
  let ?candidate = "[(S ''content'', JObj ?content)]"
  let ?kvs = "[(S ''candidates'', JArr [JObj ?candidate])]"
  have s: "status_code (gemini_reply 200 (S '' Hello '')) = 200
           \<and> body_json (gemini_reply 200 (S '' Hello '')) = Inr (JObj ?kvs)
           \<and> map_of ?kvs (S ''candidates'') = Some (JArr (JObj ?candidate # []))
           \<and> map_of ?candidate (S ''content'') = Some (JObj ?content)
           \<and> map_of ?content (S ''parts'') = Some (JArr (JObj ?part # []))
           \<and> map_of ?part (S ''text'') = Some (JStr (S '' Hello ''))"
    by (simp add: gemini_reply_def)
  from call_gemini_api_status_200 [OF a [of "Inr (gemini_reply 404 (S '' Hello ''))"]] n
  have 1: "fst (call_gemini_api (env_replying (Inr (gemini_reply 404 (S '' Hello '')))) ?p world0)
     = Inl (Exception (S ''Google API Error: '' @ str_int 404 @ S '' '' @ S ''{...}''))"
    by (simp add: gemini_reply_def)
  from call_gemini_api_status_200 [OF a [of "Inr no_candidates_reply"]] c
  have 2: "fst (call_gemini_api (env_replying (Inr no_candidates_reply)) ?p world0)
     = Inl (Exception (S ''API returned no candidates. The prompt may have been blocked.''))"
    by blast
  from call_gemini_api_status_200 [OF a [of "Inr (gemini_reply 200 (S '' Hello ''))"]] s
  have 3: "fst (call_gemini_api (env_replying (Inr (gemini_reply 200 (S '' Hello '')))) ?p world0)
     = Inr (JStr (S '' Hello ''))"
    by blast
  have "S ''Google API Error: '' @ str_int 404 @ S '' '' @ S ''{...}''
          = S ''Google API Error: 404 {...}''"
    by (simp add: str_int_def str_nat.simps S_def)
  with 1 2 3 show ?thesis by simp
qed

text \<open>
  Claim C3 as stated fails: a reply with the 2xx status 201 and one candidate does not
  yield the candidate's text; the client raises.
\<close>

theorem call_gemini_api_201_counterexample:
  "fst (call_gemini_api (env_replying (Inr (gemini_reply 201 (S ''Hello'')))) (S ''Hi'') world0)
     = Inl (Exception (S ''Google API Error: 201 {...}''))"
  by (simp add: model_defs demo_defs)




text \<open>
  Claim C5. Whatever the declared media type and the environment, extraction from an
  empty byte sequence fails with the exception for an empty file, and no external call has
  been made: the world is unchanged.
\<close>

theorem empty_file_rejected:
  "get_text_from_file env [] mime_type w
     = (Inl (Exception (S ''The uploaded file is empty.'')), w)"
  by (simp add: get_text_from_file_def)

theorem empty_file_rejected_witness:
  "get_text_from_file demo_env [] (S ''application/pdf'') world0
     = (Inl (Exception (S ''The uploaded file is empty.'')), \<lparr>calls = [], stdout = []\<rparr>)"
  using empty_file_rejected [of demo_env "S ''application/pdf''" world0]
  by (simp add: world0_def)

text \<open>
  Claim C6. For a non-empty byte sequence and a media type that does not contain
  \<^verbatim>\<open>wordprocessingml.document\<close> and starts with none of \<^verbatim>\<open>application/pdf\<close>, \<^verbatim>\<open>image/\<close> and
  \<^verbatim>\<open>text/\<close>, extraction fails, and the message of the exception contains the media type.
\<close>

theorem unsupported_type_rejected:
  assumes "file_content \<noteq> []"
    and "\<not> sublist (S ''wordprocessingml.document'') mime_type"
    and "\<not> prefix (S ''application/pdf'') mime_type"
    and "\<not> prefix (S ''image/'') mime_type"
    and "\<not> prefix (S ''text/'') mime_type"
  shows "get_text_from_file env file_content mime_type w
           = (Inl (Exception (S ''Unsupported file type: '' @ mime_type @ S ''.'')), w)
         \<and> sublist mime_type (S ''Unsupported file type: '' @ mime_type @ S ''.'')"
  using assms by (simp add: get_text_from_file_def)

theorem unsupported_type_rejected_witness:
  "get_text_from_file demo_env [0x50, 0x4B] (S ''application/zip'') world0
     = (Inl (Exception (S ''Unsupported file type: application/zip.'')), world0)
   \<and> sublist (S ''application/zip'') (S ''Unsupported file type: application/zip.'')"
proof -
  have h1: "[0x50, 0x4B] \<noteq> ([] :: bytes)" by simp
  have h2: "\<not> sublist (S ''wordprocessingml.document'') (S ''application/zip'')"
    by (simp add: S_def sublist_code)
  have h3: "\<not> prefix (S ''application/pdf'') (S ''application/zip'')" by (simp add: S_def)
  have h4: "\<not> prefix (S ''image/'') (S ''application/zip'')" by (simp add: S_def)
  have h5: "\<not> prefix (S ''text/'') (S ''application/zip'')" by (simp add: S_def)
  show ?thesis
    using unsupported_type_rejected [OF h1 h2 h3 h4 h5, of demo_env world0]
    by (simp add: S_def)
qed

text \<open>
  Claim C7 describes the signup handler with a single call of the identity provider.
  Read with one dot, line 166 gives a handler that does what the claim says: for a JSON
  object with true \<^verbatim>\<open>email\<close> and \<^verbatim>\<open>password\<close> it makes exactly one call; the answer is 201
  with the \<^verbatim>\<open>uid\<close> on success, and 400 with the message for \<^verbatim>\<open>EMAIL_EXISTS\<close>, for
  \<^verbatim>\<open>WEAK_PASSWORD\<close>, or the generic one on any other error. The file as it stands, with two
  dots, does not compile.
\<close>

lemma signup_with_one_dot:
  assumes "get_json req = Inr (JObj kvs)"
    and "map_of kvs (S ''email'') = Some email" and "py_truthy email"
    and "map_of kvs (S ''password'') = Some password" and "py_truthy password"
  shows "calls (snd (signup env req w)) = calls w @ [CreateUser email password]
   \<and> (\<forall>user. create_user env (calls w) email password = Inr user \<longrightarrow>
        fst (signup env req w) = (JObj [(S ''uid'', JStr (uid user))], 201))
   \<and> (\<forall>m. create_user env (calls w) email password
              = Inl (Foreign m (Some (JStr (S ''EMAIL_EXISTS'')))) \<longrightarrow>
        fst (signup env req w)
          = (JObj [(S ''error'', JStr (S ''The email address is already in use.''))], 400))
   \<and> (\<forall>m. create_user env (calls w) email password
              = Inl (Foreign m (Some (JStr (S ''WEAK_PASSWORD'')))) \<longrightarrow>
        fst (signup env req w)
          = (JObj [(S ''error'', JStr (S ''Password should be at least 6 characters.''))], 400))
   \<and> (\<forall>e. create_user env (calls w) email password = Inl e
          \<and> exc_code e \<noteq> Some (JStr (S ''EMAIL_EXISTS''))
          \<and> exc_code e \<noteq> Some (JStr (S ''WEAK_PASSWORD'')) \<longrightarrow>
        fst (signup env req w)
          = (JObj [(S ''error'', JStr (S ''An unknown error occurred.''))], 400))"
proof -
  have t: "signup_try env req w =
     (case create_user env (calls w) email password of
        Inl e \<Rightarrow> (Inl e, record_call (CreateUser email password) w)
      | Inr user \<Rightarrow> (Inr (JObj [(S ''uid'', JStr (uid user))], 201),
                       record_call (CreateUser email password) w))"
    using assms by (simp add: signup_try_def)
  have neq: "S ''EMAIL_EXISTS'' \<noteq> S ''WEAK_PASSWORD''" by (simp add: S_def)
  show ?thesis
    using neq
    by (cases "create_user env (calls w) email password")
       (auto simp add: signup_def t record_call_def print_def error_body_def
          signup_error_message_def split: option.splits)
qed

lemma signup_with_one_dot_example:
  "signup demo_env demo_signup world0
     = ((JObj [(S ''uid'', JStr (S ''u123''))], 201),
        \<lparr>calls = [CreateUser (JStr (S ''a@b.com'')) (JStr (S ''secret1''))], stdout = []\<rparr>)
 \<and> fst (signup env_email_exists demo_signup world0)
     = (JObj [(S ''error'', JStr (S ''The email address is already in use.''))], 400)"
  by (simp add: model_defs demo_defs)

text \<open>
  Claim C8. The prompt that each of the four task functions sends is the template of the
  task filled with the text (and the question): it depends neither on the environment nor
  on the calls and output made before, so two calls with the same text send the same
  prompt, code point for code point.
\<close>

theorem prompts_depend_on_text_only:
  "calls (snd (analyze_document_with_gemini env (JStr t) w))
     = calls w @ [HttpPost (gemini_url env) gemini_headers (gemini_data (analyze_prompt t))]
 \<and> calls (snd (reformat_document_with_gemini env (JStr t) w))
     = calls w @ [HttpPost (gemini_url env) gemini_headers (gemini_data (reformat_prompt t))]
 \<and> calls (snd (simplify_document_with_gemini env (JStr t) w))
     = calls w @ [HttpPost (gemini_url env) gemini_headers (gemini_data (simplify_prompt t))]
 \<and> calls (snd (answer_chat_question env (JStr t) (JStr q) w))
     = calls w @ [HttpPost (gemini_url env) gemini_headers (gemini_data (chat_prompt t q))]"
  by (simp add: snd_analyze_document_with_gemini reformat_document_with_gemini_def
        simplify_document_with_gemini_def answer_chat_question_def snd_call_gemini_api
        calls_record_call)

theorem prompts_depend_on_text_only_witness:
  "calls (snd (answer_chat_question demo_env (JStr (S ''Lease'')) (JStr (S ''Rent?'')) world0))
     = [HttpPost (gemini_url demo_env) gemini_headers (gemini_data
         (S ''Based ONLY on the document text provided, answer the user's question concisely.\<newline>\<newline>DOCUMENT:\<newline>Lease\<newline>\<newline>QUESTION:\<newline>Rent?''))]
 \<and> calls (snd (answer_chat_question (env_replying (Inl connection_refused)) (JStr (S ''Lease''))
        (JStr (S ''Rent?'')) (print (S ''earlier'') world0)))
     = [HttpPost (gemini_url demo_env) gemini_headers (gemini_data
         (S ''Based ONLY on the document text provided, answer the user's question concisely.\<newline>\<newline>DOCUMENT:\<newline>Lease\<newline>\<newline>QUESTION:\<newline>Rent?''))]"
  using prompts_depend_on_text_only [of demo_env "S ''Lease''" world0 "S ''Rent?''"]
    prompts_depend_on_text_only [of "env_replying (Inl connection_refused)" "S ''Lease''"
      "print (S ''earlier'') world0" "S ''Rent?''"]
  by (simp add: chat_prompt_def world0_def print_def S_def gemini_url_def env_replying_def
        demo_env_def)

text \<open>
  Claim C9. The simplify and chat handlers test only that the keys are present. A JSON
  object whose \<^verbatim>\<open>documentText\<close> (or \<^verbatim>\<open>question\<close>) is the empty string is not answered with
  400: the handler sends the prompt built from the empty string to the generation service.
\<close>

theorem empty_text_not_rejected:
  "(\<forall>kvs. get_json req = Inr (JObj kvs) \<and> map_of kvs (S ''documentText'') = Some (JStr []) \<longrightarrow>
      snd (fst (simplify_endpoint env req w)) \<noteq> 400
      \<and> calls (snd (simplify_endpoint env req w)) = calls w @
           [HttpPost (gemini_url env) gemini_headers (gemini_data (simplify_prompt []))])
 \<and> (\<forall>kvs q. get_json req = Inr (JObj kvs) \<and> map_of kvs (S ''documentText'') = Some (JStr [])
        \<and> map_of kvs (S ''question'') = Some (JStr q) \<longrightarrow>
      snd (fst (chat_endpoint env req w)) \<noteq> 400
      \<and> calls (snd (chat_endpoint env req w)) = calls w @
           [HttpPost (gemini_url env) gemini_headers (gemini_data (chat_prompt [] q))])
 \<and> (\<forall>kvs d. get_json req = Inr (JObj kvs) \<and> map_of kvs (S ''documentText'') = Some (JStr d)
        \<and> map_of kvs (S ''question'') = Some (JStr []) \<longrightarrow>
      snd (fst (chat_endpoint env req w)) \<noteq> 400
      \<and> calls (snd (chat_endpoint env req w)) = calls w @
           [HttpPost (gemini_url env) gemini_headers (gemini_data (chat_prompt d []))])"
  using simplify_endpoint_present chat_endpoint_present by blast

theorem empty_text_not_rejected_witness:
  "snd (fst (simplify_endpoint demo_env empty_simplify world0)) = 200
 \<and> calls (snd (simplify_endpoint demo_env empty_simplify world0))
     = [HttpPost (gemini_url demo_env) gemini_headers (gemini_data (simplify_prompt []))]
 \<and> snd (fst (chat_endpoint demo_env empty_chat world0)) = 200
 \<and> calls (snd (chat_endpoint demo_env empty_chat world0))
     = [HttpPost (gemini_url demo_env) gemini_headers (gemini_data (chat_prompt [] []))]"
proof -
  let ?s = "[(S ''documentText'', JStr [])]"
  let ?c = "[(S ''documentText'', JStr []), (S ''question'', JStr [])]"
  have s: "get_json empty_simplify = Inr (JObj ?s)
           \<and> map_of ?s (S ''documentText'') = Some (JStr [])"
    by (simp add: empty_simplify_def json_request_def)
  have c: "get_json empty_chat = Inr (JObj ?c)
           \<and> map_of ?c (S ''documentText'') = Some (JStr [])
           \<and> map_of ?c (S ''question'') = Some (JStr [])"
    by (simp add: empty_chat_def json_request_def S_def)
  have 1: "calls (snd (simplify_endpoint demo_env empty_simplify world0))
     = [HttpPost (gemini_url demo_env) gemini_headers (gemini_data (simplify_prompt []))]"
    using empty_text_not_rejected [of empty_simplify demo_env world0] s
    by (simp add: world0_def)
  have 2: "calls (snd (chat_endpoint demo_env empty_chat world0))
     = [HttpPost (gemini_url demo_env) gemini_headers (gemini_data (chat_prompt [] []))]"
    using empty_text_not_rejected [of empty_chat demo_env world0] c
    by (simp add: world0_def)
  have 3: "snd (fst (simplify_endpoint demo_env empty_simplify world0)) = 200"
    by (simp add: model_defs demo_defs)
  have 4: "snd (fst (chat_endpoint demo_env empty_chat world0)) = 200"
    by (simp add: model_defs demo_defs)
  from 1 2 3 4 show ?thesis by simp
qed

text \<open>
  Claim C10. When text extraction, the reformat call or the analyze call fails, the
  analyze handler answers 500 with the message of the exception under \<^verbatim>\<open>error\<close>. The
  simplify and chat handlers answer every exception with 500 and the fixed messages
  \<^verbatim>\<open>Could not simplify the document.\<close> and \<^verbatim>\<open>Could not process question.\<close>.
\<close>

theorem error_message_exposure:
  "(\<forall>file e w1. map_of (files req) (S ''file'') = Some file \<and> filename file \<noteq> []
        \<and> get_text_from_file env (content file) (mimetype file) w = (Inl e, w1) \<longrightarrow>
      fst (analyze_endpoint env req w) = (JObj [(S ''error'', JStr (exc_str env e))], 500))
 \<and> (\<forall>file raw_text e w1 w2. map_of (files req) (S ''file'') = Some file \<and> filename file \<noteq> []
        \<and> get_text_from_file env (content file) (mimetype file) w = (Inr raw_text, w1)
        \<and> reformat_document_with_gemini env (JStr raw_text) w1 = (Inl e, w2) \<longrightarrow>
      fst (analyze_endpoint env req w) = (JObj [(S ''error'', JStr (exc_str env e))], 500))
 \<and> (\<forall>file raw_text formatted_text e w1 w2 w3.
        map_of (files req) (S ''file'') = Some file \<and> filename file \<noteq> []
        \<and> get_text_from_file env (content file) (mimetype file) w = (Inr raw_text, w1)
        \<and> reformat_document_with_gemini env (JStr raw_text) w1 = (Inr formatted_text, w2)
        \<and> analyze_document_with_gemini env formatted_text w2 = (Inl e, w3) \<longrightarrow>
      fst (analyze_endpoint env req w) = (JObj [(S ''error'', JStr (exc_str env e))], 500))
 \<and> (\<forall>e w'. simplify_try env req w = (Inl e, w') \<longrightarrow>
      fst (simplify_endpoint env req w)
        = (JObj [(S ''error'', JStr (S ''Could not simplify the document.''))], 500))
 \<and> (\<forall>e w'. chat_try env req w = (Inl e, w') \<longrightarrow>
      fst (chat_endpoint env req w)
        = (JObj [(S ''error'', JStr (S ''Could not process question.''))], 500))"
  by (simp add: analyze_endpoint_def analyze_try_def simplify_endpoint_def chat_endpoint_def
        error_body_def)

theorem error_message_exposure_witness:
  "fst (analyze_endpoint demo_env empty_upload world0)
     = (JObj [(S ''error'', JStr (S ''The uploaded file is empty.''))], 500)
 \<and> fst (analyze_endpoint (env_replying (Inl connection_refused)) demo_upload world0)
     = (JObj [(S ''error'', JStr (S ''Connection refused''))], 500)
 \<and> fst (analyze_endpoint env_second_call_fails demo_upload world0)
     = (JObj [(S ''error'', JStr (S ''Connection refused''))], 500)
 \<and> fst (simplify_endpoint (env_replying (Inl connection_refused)) empty_simplify world0)
     = (JObj [(S ''error'', JStr (S ''Could not simplify the document.''))], 500)
 \<and> fst (chat_endpoint (env_replying (Inl connection_refused)) empty_chat world0)
     = (JObj [(S ''error'', JStr (S ''Could not process question.''))], 500)"
proof -
  let ?down = "env_replying (Inl connection_refused)"
  let ?pdf = "\<lparr>filename = S ''a.pdf'', mimetype = S ''application/pdf'', content = []\<rparr>"
  let ?txt = "\<lparr>filename = S ''a.txt'', mimetype = S ''text/plain'', content = [0x41]\<rparr>"
  let ?w1 = "\<lparr>calls =
     [HttpPost (gemini_url demo_env) gemini_headers (gemini_data (reformat_prompt (S ''A'')))],
     stdout = []\<rparr>"
  let ?w2 = "\<lparr>calls =
     [HttpPost (gemini_url demo_env) gemini_headers (gemini_data (reformat_prompt (S ''A''))),
      HttpPost (gemini_url demo_env) gemini_headers (gemini_data (analyze_prompt (S ''A.'')))],
     stdout = []\<rparr>"
  let ?ws = "\<lparr>calls =
     [HttpPost (gemini_url demo_env) gemini_headers (gemini_data (simplify_prompt []))],
     stdout = []\<rparr>"
  let ?wc = "\<lparr>calls =
     [HttpPost (gemini_url demo_env) gemini_headers (gemini_data (chat_prompt [] []))],
     stdout = []\<rparr>"
  have a: "map_of (files empty_upload) (S ''file'') = Some ?pdf \<and> filename ?pdf \<noteq> []
           \<and> get_text_from_file demo_env (content ?pdf) (mimetype ?pdf) world0
               = (Inl (Exception (S ''The uploaded file is empty.'')), world0)"
    by (simp add: model_defs demo_defs)
  have b: "map_of (files demo_upload) (S ''file'') = Some ?txt \<and> filename ?txt \<noteq> []
           \<and> get_text_from_file ?down (content ?txt) (mimetype ?txt) world0
               = (Inr (S ''A''), world0)
           \<and> reformat_document_with_gemini ?down (JStr (S ''A'')) world0
               = (Inl connection_refused, ?w1)"
    by (simp add: model_defs demo_defs)
  have c: "map_of (files demo_upload) (S ''file'') = Some ?txt \<and> filename ?txt \<noteq> []
           \<and> get_text_from_file env_second_call_fails (content ?txt) (mimetype ?txt) world0
               = (Inr (S ''A''), world0)
           \<and> reformat_document_with_gemini env_second_call_fails (JStr (S ''A'')) world0
               = (Inr (JStr (S ''A.'')), ?w1)
           \<and> analyze_document_with_gemini env_second_call_fails (JStr (S ''A.'')) ?w1
               = (Inl connection_refused, ?w2)"
    by (simp add: model_defs demo_defs)
  have d: "simplify_try ?down empty_simplify world0 = (Inl connection_refused, ?ws)"
    by (simp add: model_defs demo_defs)
  have e: "chat_try ?down empty_chat world0 = (Inl connection_refused, ?wc)"
    by (simp add: model_defs demo_defs)
  have 1: "fst (analyze_endpoint demo_env empty_upload world0)
     = (JObj [(S ''error'', JStr (exc_str demo_env (Exception (S ''The uploaded file is empty.''))))], 500)"
    using error_message_exposure [of empty_upload demo_env world0] a by blast
  have 2: "fst (analyze_endpoint ?down demo_upload world0)
     = (JObj [(S ''error'', JStr (exc_str ?down connection_refused))], 500)"
    using error_message_exposure [of demo_upload ?down world0] b by blast
  have 3: "fst (analyze_endpoint env_second_call_fails demo_upload world0)
     = (JObj [(S ''error'', JStr (exc_str env_second_call_fails connection_refused))], 500)"
    using error_message_exposure [of demo_upload env_second_call_fails world0] c by blast
  have 4: "fst (simplify_endpoint ?down empty_simplify world0)
     = (JObj [(S ''error'', JStr (S ''Could not simplify the document.''))], 500)"
    using error_message_exposure [of empty_simplify ?down world0] d by blast
  have 5: "fst (chat_endpoint ?down empty_chat world0)
     = (JObj [(S ''error'', JStr (S ''Could not process question.''))], 500)"
    using error_message_exposure [of empty_chat ?down world0] e by blast
  from 1 2 3 4 5 show ?thesis by (simp add: connection_refused_def)
qed

end
